theory Spec2Isabelle
  imports Main "HOL-Library.Sublist"
begin

section \<open>JavaScript values\<close>

text \<open>
  The server (src/dist/index.js) only moves JSON data between its caller and the document
  store, so a value is a JSON tree or \<open>undefined\<close>. A string is its list of code units
  (\<open>length\<close> is the source's \<open>.length\<close>). Numbers are carried as integers: the program
  never computes with a number, it only passes numbers through, tags them with
  \<open>typeof\<close> and prints them. An object is the list of its own enumerable properties in
  enumeration order.
\<close>

datatype jsval =
    JUndefined
  | JNull
  | JBool bool
  | JNum int
  | JStr string
  | JArr "jsval list"
  | JObj "(string \<times> jsval) list"

type_synonym props = "(string \<times> jsval) list"

text \<open>A thrown \<open>Error\<close> object: its \<open>name\<close> and its \<open>message\<close>.\<close>

datatype js_error = JsError (err_name: string) (err_message: string)

text \<open>\<open>`${error}`\<close> on an \<open>Error\<close> object (Error.prototype.toString).\<close>

definition error_string :: "js_error \<Rightarrow> string" where
  "error_string e =
     (if err_name e = [] then err_message e
      else if err_message e = [] then err_name e
      else err_name e @ '': '' @ err_message e)"

subsection \<open>Strings\<close>

text \<open>\<open>Array.prototype.join(sep)\<close> on an array of strings.\<close>

fun join :: "string \<Rightarrow> string list \<Rightarrow> string" where
  "join sep [] = []"
| "join sep [w] = w"
| "join sep (w # ws) = w @ sep @ join sep ws"

text \<open>
  \<open>String.prototype.split(sep)\<close> for a separator of one code unit: the pieces between
  the separators, empty pieces included, so the empty string gives one empty piece.
\<close>

fun js_split :: "char \<Rightarrow> string \<Rightarrow> string list" where
  "js_split sep [] = [[]]"
| "js_split sep (c # cs) =
     (if c = sep then [] # js_split sep cs
      else (case js_split sep cs of [] \<Rightarrow> [[c]] | w # ws \<Rightarrow> (c # w) # ws))"

text \<open>The decimal numeral of a natural number, as \<open>`${n}`\<close> prints it.\<close>

definition digit_char :: "nat \<Rightarrow> char" where
  "digit_char d = ''0123456789'' ! d"

fun decimal :: "nat \<Rightarrow> string" where
  "decimal n = (if n < 10 then [digit_char n] else decimal (n div 10) @ [digit_char (n mod 10)])"

declare decimal.simps [simp del]

text \<open>\<open>typeof v\<close>.\<close>

fun js_typeof :: "jsval \<Rightarrow> string" where
  "js_typeof JUndefined = ''undefined''"
| "js_typeof JNull = ''object''"
| "js_typeof (JBool b) = ''boolean''"
| "js_typeof (JNum n) = ''number''"
| "js_typeof (JStr s) = ''string''"
| "js_typeof (JArr xs) = ''object''"
| "js_typeof (JObj ps) = ''object''"

text \<open>\<open>!v\<close> is true exactly for the falsy values.\<close>

fun falsy :: "jsval \<Rightarrow> bool" where
  "falsy JUndefined = True"
| "falsy JNull = True"
| "falsy (JBool b) = (\<not> b)"
| "falsy (JNum n) = (n = 0)"
| "falsy (JStr s) = (s = [])"
| "falsy (JArr xs) = False"
| "falsy (JObj ps) = False"

text \<open>\<open>`${v}`\<close>: the string conversion of a value inside a template literal.\<close>

fun to_string :: "jsval \<Rightarrow> string" where
  "to_string JUndefined = ''undefined''"
| "to_string JNull = ''null''"
| "to_string (JBool b) = (if b then ''true'' else ''false'')"
| "to_string (JNum n) = (if n < 0 then ''-'' @ decimal (nat (- n)) else decimal (nat n))"
| "to_string (JStr s) = s"
| "to_string (JArr xs) =
     join '','' (map (\<lambda>x. if x = JUndefined \<or> x = JNull then [] else to_string x) xs)"
| "to_string (JObj ps) = ''[object Object]''"

subsection \<open>Properties\<close>

text \<open>
  The own enumerable string-keyed properties of a value, in enumeration order: what
  \<open>for (key in v)\<close>, \<open>Object.keys(v)\<close> and the spread \<open>{...v}\<close> visit. An array and a
  string have their indices; the other primitives have none.
\<close>

definition indexed :: "jsval list \<Rightarrow> props" where
  "indexed xs = zip (map decimal [0..<length xs]) xs"

fun own_props :: "jsval \<Rightarrow> props" where
  "own_props (JObj ps) = ps"
| "own_props (JArr xs) = indexed xs"
| "own_props (JStr s) = indexed (map (\<lambda>c. JStr [c]) s)"
| "own_props v = []"

text \<open>
  \<open>v[key]\<close> for an own enumerable property, \<open>undefined\<close> when there is none. The reads
  of the program that can throw (on \<open>null\<close> and \<open>undefined\<close>) are written out where
  they occur.
\<close>

definition get_prop :: "jsval \<Rightarrow> string \<Rightarrow> jsval" where
  "get_prop v key = (case map_of (own_props v) key of Some x \<Rightarrow> x | None \<Rightarrow> JUndefined)"

text \<open>
  An array index is the canonical numeral of a number below \<open>2^32 - 1 = 4294967295\<close>. An ordinary
  object enumerates its array-index keys first, in ascending order, and then its other
  keys in the order of their creation.
\<close>

fun digits_value :: "int \<Rightarrow> string \<Rightarrow> int option" where
  "digits_value acc [] = Some acc"
| "digits_value acc (c # cs) =
     (if c \<in> set ''0123456789'' then digits_value (10 * acc + (of_char c - 48)) cs else None)"

definition array_index :: "string \<Rightarrow> int option" where
  "array_index key =
     (if key = [] \<or> (hd key = CHR ''0'' \<and> key \<noteq> ''0'') then None
      else (case digits_value 0 key of
              None \<Rightarrow> None
            | Some n \<Rightarrow> if n < 4294967295 then Some n else None))"

fun insert_index :: "int \<Rightarrow> string \<Rightarrow> jsval \<Rightarrow> props \<Rightarrow> props" where
  "insert_index n key v [] = [(key, v)]"
| "insert_index n key v (p # ps) =
     (case array_index (fst p) of
        None \<Rightarrow> (key, v) # p # ps
      | Some m \<Rightarrow> if m < n then p # insert_index n key v ps else (key, v) # p # ps)"

text \<open>
  Defining the own property \<open>key\<close> of an object, as an object literal and the spread
  \<open>{...v}\<close> do: the value of an existing key is replaced in place, a new key takes its
  place in the enumeration order.
\<close>

definition define_prop :: "string \<Rightarrow> jsval \<Rightarrow> props \<Rightarrow> props" where
  "define_prop key v ps =
     (if key \<in> fst ` set ps then map (\<lambda>p. if fst p = key then (key, v) else p) ps
      else (case array_index key of
              None \<Rightarrow> ps @ [(key, v)]
            | Some n \<Rightarrow> insert_index n key v ps))"

text \<open>
  The assignment \<open>obj[key] = v\<close> on an object created by \<open>{}\<close>. Such an object inherits
  the accessor \<open>__proto__\<close> of \<open>Object.prototype\<close>, so an assignment to that key calls
  the setter, which changes the prototype (for an object or \<open>null\<close>) or does nothing,
  and no own property is created. Every other key is defined as an own property.
\<close>

definition set_prop :: "string \<Rightarrow> jsval \<Rightarrow> props \<Rightarrow> props" where
  "set_prop key v ps = (if key = ''__proto__'' then ps else define_prop key v ps)"

text \<open>The spread \<open>{...acc, ...v}\<close>: every own property of \<open>v\<close> is defined on the new object.\<close>

definition spread :: "props \<Rightarrow> jsval \<Rightarrow> props" where
  "spread acc v = foldl (\<lambda>obj p. define_prop (fst p) (snd p) obj) acc (own_props v)"

subsection \<open>JSON.stringify(value, null, 2)\<close>

definition hex_digit :: "nat \<Rightarrow> char" where
  "hex_digit d = ''0123456789abcdef'' ! d"

definition json_escape :: "char \<Rightarrow> string" where
  "json_escape c =
     (let n = (of_char c :: nat) in
      if n = 0x08 then [CHR 0x5C, CHR ''b'']
      else if n = 0x09 then [CHR 0x5C, CHR ''t'']
      else if n = 0x0A then [CHR 0x5C, CHR ''n'']
      else if n = 0x0C then [CHR 0x5C, CHR ''f'']
      else if n = 0x0D then [CHR 0x5C, CHR ''r'']
      else if n = 0x22 then [CHR 0x5C, CHR 0x22]
      else if n = 0x5C then [CHR 0x5C, CHR 0x5C]
      else if n < 0x20 then
        [CHR 0x5C, CHR ''u'', CHR ''0'', CHR ''0'', hex_digit (n div 16), hex_digit (n mod 16)]
      else [c])"

definition quote_json :: "string \<Rightarrow> string" where
  "quote_json s = [CHR 0x22] @ concat (map json_escape s) @ [CHR 0x22]"

text \<open>
  The text of a value at the indentation \<open>ind\<close>, with a gap of two spaces. A property
  whose value is \<open>undefined\<close> is left out of an object; an \<open>undefined\<close> array element is
  printed as \<open>null\<close>.
\<close>

fun serialize :: "string \<Rightarrow> jsval \<Rightarrow> string" where
  "serialize ind JUndefined = ''null''"
| "serialize ind JNull = ''null''"
| "serialize ind (JBool b) = (if b then ''true'' else ''false'')"
| "serialize ind (JNum n) = to_string (JNum n)"
| "serialize ind (JStr s) = quote_json s"
| "serialize ind (JArr xs) =
     (if xs = [] then ''[]''
      else ''['' @ [CHR 0x0A] @ (ind @ ''  '')
           @ join ('','' @ [CHR 0x0A] @ (ind @ ''  '')) (map (serialize (ind @ ''  '')) xs)
           @ [CHR 0x0A] @ ind @ '']'')"
| "serialize ind (JObj ps) =
     (if filter (\<lambda>p. snd p \<noteq> JUndefined) ps = [] then ''{}''
      else ''{'' @ [CHR 0x0A] @ (ind @ ''  '')
           @ join ('','' @ [CHR 0x0A] @ (ind @ ''  ''))
               (map (\<lambda>p. quote_json (fst p) @ '': '' @ serialize (ind @ ''  '') (snd p))
                    (filter (\<lambda>p. snd p \<noteq> JUndefined) ps))
           @ [CHR 0x0A] @ ind @ ''}'')"

text \<open>The result objects of the handlers are objects, so the text is always defined.\<close>

definition JSON_stringify :: "props \<Rightarrow> string" where
  "JSON_stringify result = serialize [] (JObj result)"

section \<open>truncateLongValues\<close>

definition truncateLongValues :: "jsval \<Rightarrow> jsval" where
  "truncateLongValues v =
     (case v of
        JStr s \<Rightarrow>
          if length s > 100 then JStr (join '' '' (take 10 (js_split CHR '' '' s)) @ ''...'')
          else v
      | _ \<Rightarrow> v)"

section \<open>The document store client\<close>

text \<open>
  The handlers reach the store through \<open>cosmosClient\<close>, an object of the imported
  database client; the store is not part of this program. The development is parametric
  in it: a client is the five calls the handlers make, over a store state \<open>'s\<close>. Each
  call returns the \<open>resource\<close> (or \<open>resources\<close>) of its response, or the error it
  throws. A read that finds no item answers with an \<open>undefined\<close> resource. The two
  reading calls and the listing do not change the store.
\<close>

record 's client =
  item_read :: "jsval \<Rightarrow> jsval \<Rightarrow> 's \<Rightarrow> js_error + jsval"
    \<comment> \<open>\<open>container(containerName).item(id).read()\<close>\<close>
  item_replace :: "jsval \<Rightarrow> jsval \<Rightarrow> jsval \<Rightarrow> 's \<Rightarrow> (js_error + jsval) \<times> 's"
    \<comment> \<open>\<open>container(containerName).item(id).replace(body)\<close>\<close>
  items_create :: "jsval \<Rightarrow> jsval \<Rightarrow> 's \<Rightarrow> (js_error + jsval) \<times> 's"
    \<comment> \<open>\<open>container(containerName).items.create(body)\<close>\<close>
  items_query :: "jsval \<Rightarrow> jsval \<Rightarrow> 's \<Rightarrow> js_error + jsval list"
    \<comment> \<open>\<open>container(containerName).items.query(querySpec).fetchAll()\<close>\<close>
  containers_readAll :: "'s \<Rightarrow> js_error + jsval list"
    \<comment> \<open>\<open>database(dbName).containers.readAll().fetchAll()\<close>\<close>

section \<open>The handlers\<close>

definition nullish :: "jsval \<Rightarrow> bool" where
  "nullish v = (v = JUndefined \<or> v = JNull)"

text \<open>
  \<open>const { key, ... } = params\<close> throws a \<open>TypeError\<close> when \<open>params\<close> is
  \<open>undefined\<close> or \<open>null\<close>; \<open>key\<close> is the first property of the pattern.
\<close>

definition destructure_error :: "string \<Rightarrow> jsval \<Rightarrow> js_error" where
  "destructure_error key params =
     JsError ''TypeError''
       (''Cannot destructure property '' @ [CHR 0x27] @ key @ [CHR 0x27] @ '' of ''
        @ [CHR 0x27] @ ''params'' @ [CHR 0x27] @ '' as it is '' @ to_string params @ ''.'')"

text \<open>The object every \<open>catch\<close> block returns: \<open>{success: false, message: `<what>${error}`}\<close>.\<close>

definition failure :: "string \<Rightarrow> js_error \<Rightarrow> props" where
  "failure what error = [(''success'', JBool False), (''message'', JStr (what @ error_string error))]"

definition updateItem :: "'s client \<Rightarrow> jsval \<Rightarrow> 's \<Rightarrow> props \<times> 's" where
  "updateItem cl params s =
     (if nullish params then
        (failure ''Failed to update item: '' (destructure_error ''containerName'' params), s)
      else
        let containerName = get_prop params ''containerName'';
            id = get_prop params ''id'';
            updates = get_prop params ''updates''
        in case item_read cl containerName id s of
             Inl error \<Rightarrow> (failure ''Failed to update item: '' error, s)
           | Inr resource \<Rightarrow>
               if falsy resource then
                 (failure ''Failed to update item: '' (JsError ''Error'' ''Item not found''), s)
               else
                 let updatedItem = spread (spread [] resource) updates
                 in case item_replace cl containerName id (JObj updatedItem) s of
                      (Inl error, s') \<Rightarrow> (failure ''Failed to update item: '' error, s')
                    | (Inr updatedResource, s') \<Rightarrow>
                        ([(''success'', JBool True),
                          (''message'', JStr (''Item updated successfully in container ''
                                              @ to_string containerName)),
                          (''item'', updatedResource)], s'))"

definition putItem :: "'s client \<Rightarrow> jsval \<Rightarrow> 's \<Rightarrow> props \<times> 's" where
  "putItem cl params s =
     (if nullish params then
        (failure ''Failed to put item: '' (destructure_error ''containerName'' params), s)
      else
        let containerName = get_prop params ''containerName'';
            item = get_prop params ''item''
        in case items_create cl containerName item s of
             (Inl error, s') \<Rightarrow> (failure ''Failed to put item: '' error, s')
           | (Inr resource, s') \<Rightarrow>
               ([(''success'', JBool True),
                 (''message'', JStr (''Item added successfully to container ''
                                     @ to_string containerName)),
                 (''item'', resource)], s'))"

definition getItem :: "'s client \<Rightarrow> jsval \<Rightarrow> 's \<Rightarrow> props \<times> 's" where
  "getItem cl params s =
     (if nullish params then
        (failure ''Failed to get item: '' (destructure_error ''containerName'' params), s)
      else
        let containerName = get_prop params ''containerName'';
            id = get_prop params ''id''
        in case item_read cl containerName id s of
             Inl error \<Rightarrow> (failure ''Failed to get item: '' error, s)
           | Inr resource \<Rightarrow>
               ([(''success'', JBool True),
                 (''message'', JStr (''Item retrieved successfully from container ''
                                     @ to_string containerName)),
                 (''item'', resource)], s))"

definition queryContainer :: "'s client \<Rightarrow> jsval \<Rightarrow> 's \<Rightarrow> props \<times> 's" where
  "queryContainer cl params s =
     (if nullish params then
        (failure ''Failed to query container: '' (destructure_error ''containerName'' params), s)
      else
        let containerName = get_prop params ''containerName'';
            query = get_prop params ''query'';
            parameters = get_prop params ''parameters''
        in case items_query cl containerName
                  (JObj [(''query'', query), (''parameters'', parameters)]) s of
             Inl error \<Rightarrow> (failure ''Failed to query container: '' error, s)
           | Inr resources \<Rightarrow>
               ([(''success'', JBool True),
                 (''message'', JStr (''Query executed successfully on container ''
                                     @ to_string containerName)),
                 (''items'', JArr resources)], s))"

text \<open>\<open>resources.map(c => c.id)\<close>: reading \<open>id\<close> of \<open>null\<close> or \<open>undefined\<close> throws.\<close>

fun container_ids :: "jsval list \<Rightarrow> js_error + jsval list" where
  "container_ids [] = Inr []"
| "container_ids (c # cs) =
     (if nullish c then
        Inl (JsError ''TypeError''
               (''Cannot read properties of '' @ to_string c @ '' (reading ''
                @ [CHR 0x27] @ ''id'' @ [CHR 0x27] @ '')''))
      else (case container_ids cs of
              Inl error \<Rightarrow> Inl error
            | Inr ids \<Rightarrow> Inr (get_prop c ''id'' # ids)))"

definition listContainers :: "'s client \<Rightarrow> 's \<Rightarrow> props \<times> 's" where
  "listContainers cl s =
     (case containers_readAll cl s of
        Inl error \<Rightarrow> (failure ''Failed to list containers: '' error, s)
      | Inr resources \<Rightarrow>
          (case container_ids resources of
             Inl error \<Rightarrow> (failure ''Failed to list containers: '' error, s)
           | Inr ids \<Rightarrow>
               ([(''success'', JBool True),
                 (''message'', JStr ''Containers retrieved successfully''),
                 (''containers'', JArr ids)], s)))"

text \<open>
  The callback of \<open>resources.map\<close> in \<open>sampleItem\<close>: a new object that receives, for each
  key of the item in turn, the truncated value of that key.
\<close>

definition truncate_item :: "jsval \<Rightarrow> jsval" where
  "truncate_item item =
     JObj (foldl (\<lambda>truncatedItem key.
                    set_prop key (truncateLongValues (get_prop item key)) truncatedItem)
                 [] (map fst (own_props item)))"

text \<open>
  The \<open>schema\<close> expression. \<open>Object.keys\<close> throws on \<open>null\<close> and \<open>undefined\<close>.
\<close>

definition schema_entry :: "jsval \<Rightarrow> string \<Rightarrow> jsval" where
  "schema_entry first key =
     JObj [(''field'', JStr key),
           (''type'', JStr (js_typeof (get_prop first key))),
           (''sample'', truncateLongValues (get_prop first key))]"

definition schema_of :: "jsval list \<Rightarrow> js_error + jsval" where
  "schema_of resources =
     (case resources of
        [] \<Rightarrow> Inr (JArr [])
      | first # rest \<Rightarrow>
          if nullish first then
            Inl (JsError ''TypeError'' ''Cannot convert undefined or null to object'')
          else Inr (JArr (map (schema_entry first) (map fst (own_props first)))))"

text \<open>
  The query of \<open>sampleItem\<close>: \<open>limit\<close> takes its default of 1 when the property is
  \<open>undefined\<close>, and is passed as the parameter \<open>@limit\<close>.
\<close>

definition sample_query_spec :: "jsval \<Rightarrow> jsval" where
  "sample_query_spec params =
     (let limit = (if get_prop params ''limit'' = JUndefined then JNum 1
                   else get_prop params ''limit'');
          query = ''SELECT * FROM c ORDER BY c._ts DESC OFFSET 0 LIMIT @limit'';
          queryParams = JArr [JObj [(''name'', JStr ''@limit''), (''value'', limit)]]
      in JObj [(''query'', JStr query), (''parameters'', queryParams)])"

definition sampleItem :: "'s client \<Rightarrow> jsval \<Rightarrow> 's \<Rightarrow> props \<times> 's" where
  "sampleItem cl params s =
     (if nullish params then
        (failure ''Failed to sample container: '' (destructure_error ''containerName'' params), s)
      else
        let containerName = get_prop params ''containerName''
        in case items_query cl containerName (sample_query_spec params) s of
             Inl error \<Rightarrow> (failure ''Failed to sample container: '' error, s)
           | Inr resources \<Rightarrow>
               let truncatedResources = map truncate_item resources
               in case schema_of resources of
                    Inl error \<Rightarrow> (failure ''Failed to sample container: '' error, s)
                  | Inr schema \<Rightarrow>
                      ([(''success'', JBool True),
                        (''message'', JStr (''Retrieved '' @ decimal (length resources)
                                            @ '' sample item(s) from container ''
                                            @ to_string containerName)),
                        (''items'', JArr truncatedResources),
                        (''schema'', schema)], s))"

section \<open>The call-tool request handler\<close>

record request =
  req_name :: string
  req_arguments :: jsval

datatype content_item = TextContent string

text \<open>\<open>isError\<close> is \<open>None\<close> when the response object has no such property.\<close>

record response =
  content :: "content_item list"
  isError :: "bool option"

definition tool_names :: "string list" where
  "tool_names = [''put_item'', ''get_item'', ''query_container'', ''update_item'',
                 ''list_containers'', ''sample_item'']"

text \<open>
  What the request handler answers to the outcome of the awaited tool handler: a result
  is serialised into a response without \<open>isError\<close>; an exception that reaches the
  dispatcher (\<open>Inl\<close>) is answered by the \<open>catch\<close> block. The six handlers catch
  their own errors and always return a result.
\<close>

definition respond :: "js_error + props \<Rightarrow> response" where
  "respond outcome =
     (case outcome of
        Inr result \<Rightarrow> \<lparr>content = [TextContent (JSON_stringify result)], isError = None\<rparr>
      | Inl error \<Rightarrow>
          \<lparr>content = [TextContent (''Error occurred: '' @ error_string error)],
           isError = Some True\<rparr>)"

text \<open>
  The \<open>switch\<close> on the tool name: the result of the handler it selects, or \<open>None\<close>
  in the \<open>default\<close> case, which returns from the request handler at once.
\<close>

definition run_handler :: "'s client \<Rightarrow> string \<Rightarrow> jsval \<Rightarrow> 's \<Rightarrow> (props \<times> 's) option" where
  "run_handler cl name args s =
     (if name = ''put_item'' then Some (putItem cl args s)
      else if name = ''get_item'' then Some (getItem cl args s)
      else if name = ''query_container'' then Some (queryContainer cl args s)
      else if name = ''update_item'' then Some (updateItem cl args s)
      else if name = ''list_containers'' then Some (listContainers cl s)
      else if name = ''sample_item'' then Some (sampleItem cl args s)
      else None)"

definition call_tool :: "'s client \<Rightarrow> request \<Rightarrow> 's \<Rightarrow> response \<times> 's" where
  "call_tool cl request s =
     (let name = req_name request; args = req_arguments request
      in case run_handler cl name args s of
           None \<Rightarrow>
             (\<lparr>content = [TextContent (''Unknown tool: '' @ name)], isError = Some True\<rparr>, s)
         | Some (result, s') \<Rightarrow> (respond (Inr result), s'))"

section \<open>A reference store\<close>

text \<open>
  An instance of the client, used to run the handlers on concrete stores: each container
  name is bound to the list of its documents, oldest first. It follows the contract of
  the database client's calls: \<open>read\<close> answers with an \<open>undefined\<close> resource when no
  document has the id; \<open>create\<close> adds a document and rejects an id that is already
  present (a conflict); \<open>replace\<close> overwrites the document with the id and rejects an
  id that is absent. The query text is not interpreted: a query answers with the
  container's documents, newest first.
\<close>

type_synonym mem_store = "(string \<times> jsval list) list"

definition mem_container :: "mem_store \<Rightarrow> jsval \<Rightarrow> js_error + string \<times> jsval list" where
  "mem_container s containerName =
     (case containerName of
        JStr n \<Rightarrow>
          (case map_of s n of
             Some docs \<Rightarrow> Inr (n, docs)
           | None \<Rightarrow> Inl (JsError ''Error'' ''Resource Not Found''))
      | _ \<Rightarrow> Inl (JsError ''Error'' ''Resource Not Found''))"

definition mem_put_docs :: "string \<Rightarrow> jsval list \<Rightarrow> mem_store \<Rightarrow> mem_store" where
  "mem_put_docs n docs s = map (\<lambda>c. if fst c = n then (n, docs) else c) s"

definition has_id :: "jsval \<Rightarrow> jsval \<Rightarrow> bool" where
  "has_id item_id doc = (get_prop doc ''id'' = item_id)"

definition mem_read :: "jsval \<Rightarrow> jsval \<Rightarrow> mem_store \<Rightarrow> js_error + jsval" where
  "mem_read containerName item_id s =
     (case mem_container s containerName of
        Inl error \<Rightarrow> Inl error
      | Inr (n, docs) \<Rightarrow>
          Inr (case find (has_id item_id) docs of Some doc \<Rightarrow> doc | None \<Rightarrow> JUndefined))"

definition mem_create :: "jsval \<Rightarrow> jsval \<Rightarrow> mem_store \<Rightarrow> (js_error + jsval) \<times> mem_store" where
  "mem_create containerName body s =
     (case mem_container s containerName of
        Inl error \<Rightarrow> (Inl error, s)
      | Inr (n, docs) \<Rightarrow>
          if find (has_id (get_prop body ''id'')) docs \<noteq> None then
            (Inl (JsError ''Error'' ''Entity with the specified id already exists in the system.''), s)
          else (Inr body, mem_put_docs n (docs @ [body]) s))"

definition mem_replace ::
  "jsval \<Rightarrow> jsval \<Rightarrow> jsval \<Rightarrow> mem_store \<Rightarrow> (js_error + jsval) \<times> mem_store" where
  "mem_replace containerName item_id body s =
     (case mem_container s containerName of
        Inl error \<Rightarrow> (Inl error, s)
      | Inr (n, docs) \<Rightarrow>
          if find (has_id item_id) docs = None then
            (Inl (JsError ''Error'' ''Entity with the specified id does not exist in the system.''), s)
          else (Inr body,
                mem_put_docs n (map (\<lambda>doc. if has_id item_id doc then body else doc) docs) s))"

definition mem_query :: "jsval \<Rightarrow> jsval \<Rightarrow> mem_store \<Rightarrow> js_error + jsval list" where
  "mem_query containerName querySpec s =
     (case mem_container s containerName of
        Inl error \<Rightarrow> Inl error
      | Inr (n, docs) \<Rightarrow> Inr (rev docs))"

definition mem_readAll :: "mem_store \<Rightarrow> js_error + jsval list" where
  "mem_readAll s = Inr (map (\<lambda>c. JObj [(''id'', JStr (fst c))]) s)"

definition mem_client :: "mem_store client" where
  "mem_client =
     \<lparr>item_read = mem_read, item_replace = mem_replace, items_create = mem_create,
      items_query = mem_query, containers_readAll = mem_readAll\<rparr>"

text \<open>
  The store of the specification's example: container \<open>c\<close> holds the one item
  \<open>{id: "x", a: 0, b: 2}\<close>.
\<close>

definition demo_store :: mem_store where
  "demo_store = [(''c'', [JObj [(''id'', JStr ''x''), (''a'', JNum 0), (''b'', JNum 2)]])]"


text \<open>The arguments of a \<open>get_item\<close> call for an id that the store does not hold.\<close>

definition missing_get :: jsval where
  "missing_get = JObj [(''containerName'', JStr ''c''), (''id'', JStr ''y'')]"


definition example_put :: jsval where
  "example_put =
     JObj [(''containerName'', JStr ''c''),
           (''item'', JObj [(''id'', JStr ''x''), (''a'', JNum 1)])]"



definition sample_notes :: jsval where
  "sample_notes = JObj [(''containerName'', JStr ''notes'')]"


text \<open>
  The same container holding a document with a field named \<open>__proto__\<close>, as
  \<open>JSON.parse\<close> delivers the stored JSON \<open>{"id": "n2", "__proto__": "draft"}\<close>.
\<close>

definition proto_store :: mem_store where
  "proto_store =
     [(''notes'', [JObj [(''id'', JStr ''n2''), (''__proto__'', JStr ''draft'')]])]"


section \<open>Properties\<close>

subsection \<open>Objects and strings\<close>


lemma map_of_replace_at:
  "map_of (map (\<lambda>p. if fst p = key then (key, v) else p) ps) k =
     (if k = key then map_option (\<lambda>x. v) (map_of ps key) else map_of ps k)"
  by (induction ps) auto

lemma map_of_replace:
  assumes "key \<in> fst ` set ps"
  shows "map_of (map (\<lambda>p. if fst p = key then (key, v) else p) ps) = (map_of ps)(key \<mapsto> v)"
proof -
  from assms obtain x where "map_of ps key = Some x"
    by (metis map_of_eq_None_iff not_Some_eq)
  then show ?thesis by (simp add: fun_eq_iff map_of_replace_at)
qed


lemma map_of_insert_index:
  "key \<notin> fst ` set ps \<Longrightarrow> map_of (insert_index n key v ps) = (map_of ps)(key \<mapsto> v)"
proof (induction ps)
  case Nil
  then show ?case by simp
next
  case (Cons p ps)
  then have "fst p \<noteq> key" by auto
  with Cons show ?case
    by (cases p) (auto split: option.splits simp: fun_upd_twist)
qed

lemma map_of_define_prop: "map_of (define_prop key v ps) = (map_of ps)(key \<mapsto> v)"
proof (cases "key \<in> fst ` set ps")
  case True
  then show ?thesis by (simp add: define_prop_def map_of_replace)
next
  case False
  then have "map_of ps key = None" by (simp add: map_of_eq_None_iff)
  with False show ?thesis
    by (auto simp: define_prop_def map_of_insert_index map_add_def fun_eq_iff split: option.splits)
qed

lemma map_of_set_prop:
  "map_of (set_prop key v ps) = (if key = ''__proto__'' then map_of ps else (map_of ps)(key \<mapsto> v))"
  by (simp add: set_prop_def map_of_define_prop)


lemma map_of_truncate_fold:
  "map_of (foldl (\<lambda>acc key. set_prop key (f key) acc) acc0 keys) k =
     (if k \<in> set keys \<and> k \<noteq> ''__proto__'' then Some (f k) else map_of acc0 k)"
  by (induction keys arbitrary: acc0) (auto simp: map_of_set_prop)

subsection \<open>Truncation\<close>



subsection \<open>The dispatcher\<close>

lemma run_handler_None: "run_handler cl name args s = None \<longleftrightarrow> name \<notin> set tool_names"
  by (simp add: run_handler_def tool_names_def)

text \<open>
  Claim C6. A request whose name is none of the six tool names is answered, not thrown:
  the response has \<open>isError: true\<close> and its text is \<open>Unknown tool: \<close> followed by
  the requested name. The store is not touched.
\<close>

theorem unknown_tool_response:
  "req_name request \<notin> set tool_names \<Longrightarrow>
   call_tool cl request s =
     (\<lparr>content = [TextContent (''Unknown tool: '' @ req_name request)], isError = Some True\<rparr>, s)"
proof -
  assume "req_name request \<notin> set tool_names"
  then have "run_handler cl (req_name request) (req_arguments request) s = None"
    by (simp add: run_handler_None)
  then show ?thesis by (simp add: call_tool_def)
qed

theorem unknown_tool_response_witness:
  "''delete_item'' \<notin> set tool_names
   \<and> call_tool mem_client \<lparr>req_name = ''delete_item'', req_arguments = JUndefined\<rparr> demo_store =
       (\<lparr>content = [TextContent ''Unknown tool: delete_item''], isError = Some True\<rparr>, demo_store)"
proof -
  have unknown: "req_name \<lparr>req_name = ''delete_item'', req_arguments = JUndefined\<rparr> \<notin> set tool_names"
    by (simp add: tool_names_def)
  from unknown_tool_response [OF unknown, of mem_client demo_store] unknown show ?thesis by simp
qed



subsection \<open>Reading an item\<close>

lemma getItem_response:
  "call_tool cl \<lparr>req_name = ''get_item'', req_arguments = params\<rparr> s =
     (respond (Inr (fst (getItem cl params s))), snd (getItem cl params s))"
  by (simp add: call_tool_def run_handler_def split: prod.splits)

lemma getItem_store: "snd (getItem cl params s) = s"
  by (simp add: getItem_def Let_def split: sum.splits)



text \<open>
  Claim C8. A \<open>get_item\<close> call leaves the store as it was, so a second call with the
  same arguments gives the same response text; and the response is determined by the
  arguments and the answer of the store's read alone.
\<close>

theorem get_item_repeatable:
  "snd (call_tool cl \<lparr>req_name = ''get_item'', req_arguments = args\<rparr> s) = s
   \<and> fst (call_tool cl \<lparr>req_name = ''get_item'', req_arguments = args\<rparr>
            (snd (call_tool cl \<lparr>req_name = ''get_item'', req_arguments = args\<rparr> s)))
       = fst (call_tool cl \<lparr>req_name = ''get_item'', req_arguments = args\<rparr> s)
   \<and> (item_read cl (get_prop args ''containerName'') (get_prop args ''id'') s
         = item_read cl' (get_prop args ''containerName'') (get_prop args ''id'') s'
       \<longrightarrow> fst (call_tool cl \<lparr>req_name = ''get_item'', req_arguments = args\<rparr> s)
           = fst (call_tool cl' \<lparr>req_name = ''get_item'', req_arguments = args\<rparr> s'))"
  by (simp add: getItem_response getItem_store) (auto simp: getItem_def Let_def split: sum.splits)

theorem get_item_repeatable_witness:
  "item_read mem_client (get_prop missing_get ''containerName'') (get_prop missing_get ''id'')
       demo_store
     = item_read mem_client (get_prop missing_get ''containerName'') (get_prop missing_get ''id'')
         ((''d'', []) # demo_store)
   \<and> fst (call_tool mem_client \<lparr>req_name = ''get_item'', req_arguments = missing_get\<rparr> demo_store)
     = fst (call_tool mem_client \<lparr>req_name = ''get_item'', req_arguments = missing_get\<rparr>
              ((''d'', []) # demo_store))"
proof -
  have same: "item_read mem_client (get_prop missing_get ''containerName'')
                (get_prop missing_get ''id'') demo_store
              = item_read mem_client (get_prop missing_get ''containerName'')
                  (get_prop missing_get ''id'') ((''d'', []) # demo_store)"
    by code_simp
  from get_item_repeatable [of mem_client missing_get demo_store mem_client "(''d'', []) # demo_store"]
    same
  show ?thesis by blast
qed

subsection \<open>Updating an item\<close>





subsection \<open>Putting an item\<close>

lemma putItem_calls_create:
  assumes "\<not> nullish params"
  shows "snd (putItem cl params s) =
           snd (items_create cl (get_prop params ''containerName'') (get_prop params ''item'') s)"
    and "fst (items_create cl (get_prop params ''containerName'') (get_prop params ''item'') s)
           = Inr resource
         \<Longrightarrow> fst (putItem cl params s) =
               [(''success'', JBool True),
                (''message'', JStr (''Item added successfully to container ''
                                    @ to_string (get_prop params ''containerName''))),
                (''item'', resource)]"
    and "fst (items_create cl (get_prop params ''containerName'') (get_prop params ''item'') s)
           = Inl error
         \<Longrightarrow> fst (putItem cl params s) = failure ''Failed to put item: '' error"
  using assms by (auto simp: putItem_def Let_def split: prod.splits sum.splits)

text \<open>
  Claim C1. \<open>putItem\<close> makes one store call, \<open>items.create\<close>, and nothing else. On
  the reference store a \<open>put_item\<close> for an id that is already present does not
  replace the item: the create is rejected, the result is \<open>success: false\<close> and the
  stored item is the old one.
\<close>

theorem put_item_existing_id:
  "putItem mem_client example_put demo_store =
     ([(''success'', JBool False),
       (''message'', JStr ''Failed to put item: Error: Entity with the specified id already exists in the system.'')],
      demo_store)
   \<and> item_read mem_client (JStr ''c'') (JStr ''x'') demo_store
       = Inr (JObj [(''id'', JStr ''x''), (''a'', JNum 0), (''b'', JNum 2)])"
  by code_simp

subsection \<open>Sampling a container\<close>

text \<open>
  The loop of \<open>sampleItem\<close> copies every field of an item but one: the assignment to
  the key \<open>__proto__\<close> creates no property. Every other field is present in the
  truncated item with the truncated value.
\<close>

lemma truncate_item_fields:
  "map_of (own_props (truncate_item item)) key =
     (if key = ''__proto__'' then None
      else map_option truncateLongValues (map_of (own_props item) key))"
proof (cases "map_of (own_props item) key")
  case None
  then have "key \<notin> set (map fst (own_props item))"
    by (simp add: map_of_eq_None_iff)
  with None show ?thesis
    by (simp add: truncate_item_def map_of_truncate_fold del: set_map)
next
  case (Some v)
  then have "key \<in> set (map fst (own_props item))"
    by (metis map_of_eq_None_iff option.distinct(1) set_map)
  with Some show ?thesis
    by (simp add: truncate_item_def map_of_truncate_fold get_prop_def del: set_map)
qed

lemma truncate_item_keys:
  "fst ` set (own_props (truncate_item item)) = fst ` set (own_props item) - {''__proto__''}"
proof -
  have "dom (map_of (own_props (truncate_item item)))
          = dom (map_of (own_props item)) - {''__proto__''}"
    by (auto simp: truncate_item_fields dom_def split: if_splits)
  then show ?thesis by (simp add: dom_map_of_conv_image_fst)
qed

lemma truncate_item_field:
  assumes "map_of doc key = Some v" and "key \<noteq> ''__proto__''"
  shows "get_prop (truncate_item (JObj doc)) key = truncateLongValues v"
  using assms by (simp add: get_prop_def truncate_item_fields)

lemma schema_of_documents:
  "schema_of (map JObj docs) =
     Inr (JArr (case docs of [] \<Rightarrow> []
                | first # rest \<Rightarrow> map (schema_entry (JObj first)) (map fst first)))"
  by (cases docs) (simp_all add: schema_of_def nullish_def)

lemma sampleItem_documents:
  assumes "\<not> nullish params"
    and "items_query cl (get_prop params ''containerName'') (sample_query_spec params) s
           = Inr (map JObj docs)"
  shows "sampleItem cl params s =
           ([(''success'', JBool True),
             (''message'', JStr (''Retrieved '' @ decimal (length docs)
                                 @ '' sample item(s) from container ''
                                 @ to_string (get_prop params ''containerName''))),
             (''items'', JArr (map truncate_item (map JObj docs))),
             (''schema'', JArr (case docs of [] \<Rightarrow> []
                | first # rest \<Rightarrow> map (schema_entry (JObj first)) (map fst first)))], s)"
  using assms by (simp add: sampleItem_def schema_of_documents)

lemma sampleItem_truncates_other_fields:
  assumes "\<not> nullish params"
    and "items_query cl (get_prop params ''containerName'') (sample_query_spec params) s
           = Inr (map JObj docs)"
    and "doc \<in> set docs" and "map_of doc key = Some v" and "key \<noteq> ''__proto__''"
  shows "get_prop (JObj (fst (sampleItem cl params s))) ''items''
           = JArr (map truncate_item (map JObj docs))"
    and "v = JStr str \<Longrightarrow> 100 < length str \<Longrightarrow>
           get_prop (truncate_item (JObj doc)) key
             = JStr (join '' '' (take 10 (js_split CHR '' '' str)) @ ''...'')"
    and "(\<And>str. v = JStr str \<Longrightarrow> length str \<le> 100) \<Longrightarrow>
           get_prop (truncate_item (JObj doc)) key = v"
proof -
  show "get_prop (JObj (fst (sampleItem cl params s))) ''items''
           = JArr (map truncate_item (map JObj docs))"
    by (simp add: sampleItem_documents [OF assms(1,2)] get_prop_def)
  have field: "get_prop (truncate_item (JObj doc)) key = truncateLongValues v"
    using assms(4,5) by (rule truncate_item_field)
  show "get_prop (truncate_item (JObj doc)) key
             = JStr (join '' '' (take 10 (js_split CHR '' '' str)) @ ''...'')"
    if "v = JStr str" and "100 < length str"
    using that field by (simp add: truncateLongValues_def)
  show "get_prop (truncate_item (JObj doc)) key = v"
    if "\<And>str. v = JStr str \<Longrightarrow> length str \<le> 100"
    using that field by (cases v) (auto simp: truncateLongValues_def)
qed

text \<open>
  Claim C4. Every field of every sampled item is to be treated on its own: a string
  value of more than 100 characters becomes its first 10 space-separated words followed
  by \<open>...\<close>, every other value passes through unchanged. This holds for every field
  but one (\<open>sampleItem_truncates_other_fields\<close>). On the document
  \<open>{id: "n2", __proto__: "draft"}\<close> the short string \<open>draft\<close> does not pass through:
  the returned item is \<open>{id: "n2"}\<close>, while the schema of the same result lists the
  field with its sample.
\<close>

theorem sample_item_proto_value_lost:
  "items_query mem_client (JStr ''notes'') (sample_query_spec sample_notes) proto_store
     = Inr [JObj [(''id'', JStr ''n2''), (''__proto__'', JStr ''draft'')]]
   \<and> sampleItem mem_client sample_notes proto_store =
     ([(''success'', JBool True),
       (''message'', JStr ''Retrieved 1 sample item(s) from container notes''),
       (''items'', JArr [JObj [(''id'', JStr ''n2'')]]),
       (''schema'',
        JArr [JObj [(''field'', JStr ''id''), (''type'', JStr ''string''),
                    (''sample'', JStr ''n2'')],
              JObj [(''field'', JStr ''__proto__''), (''type'', JStr ''string''),
                    (''sample'', JStr ''draft'')]])],
      proto_store)"
  by code_simp

text \<open>
  Claim C10. The truncated item is to have exactly the field names of the raw item. On
  the document \<open>{id: "n2", __proto__: "draft"}\<close> the raw item has the field names
  \<open>id\<close> and \<open>__proto__\<close>, the truncated item of the payload only \<open>id\<close>: a field
  is removed.
\<close>

theorem sample_item_proto_field_removed:
  "fst ` set (own_props (JObj [(''id'', JStr ''n2''), (''__proto__'', JStr ''draft'')]))
     = {''id'', ''__proto__''}
   \<and> get_prop (JObj (fst (sampleItem mem_client sample_notes proto_store))) ''items''
     = JArr [truncate_item (JObj [(''id'', JStr ''n2''), (''__proto__'', JStr ''draft'')])]
   \<and> fst ` set (own_props (truncate_item
                    (JObj [(''id'', JStr ''n2''), (''__proto__'', JStr ''draft'')])))
     = {''id''}"
proof -
  have "sampleItem mem_client sample_notes proto_store =
     ([(''success'', JBool True),
       (''message'', JStr ''Retrieved 1 sample item(s) from container notes''),
       (''items'', JArr [truncate_item (JObj [(''id'', JStr ''n2''),
                                              (''__proto__'', JStr ''draft'')])]),
       (''schema'',
        JArr [JObj [(''field'', JStr ''id''), (''type'', JStr ''string''),
                    (''sample'', JStr ''n2'')],
              JObj [(''field'', JStr ''__proto__''), (''type'', JStr ''string''),
                    (''sample'', JStr ''draft'')]])],
      proto_store)"
    by code_simp
  then show ?thesis
    by (auto simp: get_prop_def truncate_item_keys)
qed




end
